theory Spec2Isabelle
  imports Main
begin

section \<open>Cyberwave Edge: the command-driven stream lifecycle controller\<close>

text \<open>
  A shallow embedding of \<^verbatim>\<open>cyberwave_edge/service.py\<close> and
  \<^verbatim>\<open>cyberwave_edge/config.py\<close>. Python exceptions are values of \<open>exn\<close>; a
  coroutine or method is a function from the service state to an outcome and the new
  state. The calls into the Cyberwave SDK (stream handle, MQTT client) are recorded in
  the trace of the state, in the order the code makes them.
\<close>

subsection \<open>Exceptions and outcomes\<close>

datatype exn =
    RuntimeError string
  | ValueError string
  | OSError string
  | AttributeError string
  | SdkError string  \<comment> \<open>an exception raised inside an SDK call; the string names the call\<close>

datatype outcome = Returned | Raised exn

subsection \<open>The stream handle\<close>

text \<open>
  The handle returned by \<^verbatim>\<open>client.video_stream(...)\<close> is opaque to the service; the
  code inspects it by duck typing. \<open>probe\<close> is the result of evaluating
  \<^verbatim>\<open>hasattr(x, 'a') and x.a\<close>: the attribute is missing, falsy, truthy, or looking at
  it raises. The boolean fields say which of the handle's own calls raise.
\<close>

datatype probe = Missing | Falsy | Truthy | Faulty

record handle =
  hid :: nat
  pc :: probe
  pc_close_raises :: bool
  pc_monitoring_raises :: bool  \<comment> \<open>\<^verbatim>\<open>pc.on(...)\<close>, \<^verbatim>\<open>pc.getSenders()\<close> or a sender's track raise\<close>
  streamer :: probe
  streamer_close_raises :: bool
  streamer_has_release :: bool
  streamer_release_raises :: bool
  streamer_has_frame_count :: bool
  start_raises :: bool
  stop_raises :: bool

subsection \<open>The SDK client\<close>

text \<open>
  \<open>cyberwave\<close> is the client object of the SDK, with the behaviour of the calls the
  service makes on it. \<open>new_video_stream\<close> is the handle that
  \<^verbatim>\<open>client.video_stream(...)\<close> returns (\<open>None\<close>: the constructor raises).

  The calls for which the service has an error path of their own (constructing, starting
  and tearing down a stream, connecting, subscribing, disconnecting) may raise. The two
  means by which the service reports, \<^verbatim>\<open>client.mqtt.publish_command_message\<close> and the
  logger, are taken to work: publishing records the acknowledgment and returns. What the
  handlers do is therefore stated relative to a command channel that carries what it is
  given.
\<close>

record cyberwave =
  time_reference_raises :: bool
  new_video_stream :: "handle option"
  mqtt_connected :: bool
  mqtt_connect_raises :: bool
  subscribe_raises :: bool
  mqtt_disconnect_raises :: bool
  has_disconnect :: bool
  disconnect_raises :: bool

subsection \<open>Configuration\<close>

record edge_config =
  cyberwave_token :: "string option"
  cyberwave_base_url :: string
  mqtt_host :: "string option"
  mqtt_port :: int
  mqtt_username :: "string option"
  mqtt_password :: "string option"
  edge_uuid :: string
  twin_uuid :: "string option"
  camera_id :: int
  camera_fps :: int
  log_level :: string

subsection \<open>Events and the service state\<close>

datatype level = DEBUG | INFO | WARNING | ERROR

datatype coroutine = HandleStartVideo | HandleStopVideo

datatype event =
    Log level string
  | Publish "string option" string  \<comment> \<open>\<^verbatim>\<open>publish_command_message(twin_uuid, status)\<close>\<close>
  | LockAcquire
  | LockRelease
  | TimeReferenceNew
  | VideoStreamNew "string option" int int  \<comment> \<open>twin, camera id, fps\<close>
  | HandleStart nat
  | HandleStop nat
  | PcClose nat
  | StreamerClose nat
  | StreamerRelease nat
  | CreateMonitorTask nat
  | Schedule coroutine  \<comment> \<open>\<^verbatim>\<open>asyncio.run_coroutine_threadsafe\<close>\<close>
  | CyberwaveNew "string option" string
  | MqttConnect
  | Subscribe "string option"
  | MqttDisconnect
  | ClientDisconnect

datatype event_loop = LoopOpen | LoopClosed

text \<open>
  The state of \<^verbatim>\<open>EdgeService\<close>. Each entry of \<open>trace\<close> is an event together with
  what the field \<^verbatim>\<open>self.video_stream\<close> held at that moment (\<open>True\<close>: it was
  \<^verbatim>\<open>None\<close>), which is what a reentrant caller would have seen.
\<close>

record edge_service =
  config :: edge_config
  running :: bool
  client :: "cyberwave option"
  video_stream :: "handle option"
  event_loop :: "event_loop option"
  command_callback :: bool  \<comment> \<open>\<^verbatim>\<open>on_command_message\<close> is registered with the MQTT client\<close>
  trace :: "(event \<times> bool) list"

definition emit :: "event \<Rightarrow> edge_service \<Rightarrow> edge_service" where
  "emit e s = s\<lparr>trace := trace s @ [(e, video_stream s = None)]\<rparr>"

definition and_then ::
  "outcome \<times> edge_service \<Rightarrow> (edge_service \<Rightarrow> outcome \<times> edge_service) \<Rightarrow> outcome \<times> edge_service" where
  \<comment> \<open>statement sequencing: a raised exception skips the rest\<close>
  "and_then r k = (case r of (Returned, s) \<Rightarrow> k s | (Raised e, s) \<Rightarrow> (Raised e, s))"

definition try_except ::
  "outcome \<times> edge_service \<Rightarrow> (exn \<Rightarrow> edge_service \<Rightarrow> outcome \<times> edge_service) \<Rightarrow> outcome \<times> edge_service" where
  \<comment> \<open>\<^verbatim>\<open>try: ... except Exception as e: ...\<close>\<close>
  "try_except r h = (case r of (Returned, s) \<Rightarrow> (Returned, s) | (Raised e, s) \<Rightarrow> h e s)"

definition events_since :: "edge_service \<Rightarrow> edge_service \<Rightarrow> (event \<times> bool) list" where
  "events_since s s' = drop (length (trace s)) (trace s')"

definition published :: "edge_service \<Rightarrow> string list" where
  "published s = concat (map (\<lambda>ob. case fst ob of Publish t r \<Rightarrow> [r] | _ \<Rightarrow> []) (trace s))"

subsection \<open>The stop sequence\<close>

definition close_peer_connection :: "handle \<Rightarrow> edge_service \<Rightarrow> outcome \<times> edge_service" where
  \<comment> \<open>service.py lines 266-271; the 0.2 s sleep after a successful close is not modelled\<close>
  "close_peer_connection h s =
     (case pc h of
        Faulty \<Rightarrow> (Raised (SdkError ''pc''), s)
      | Truthy \<Rightarrow>
          (let s1 = emit (PcClose (hid h)) s in
           if pc_close_raises h
           then (Returned, emit (Log WARNING ''Error closing peer connection'') s1)
           else (Returned, s1))
      | _ \<Rightarrow> (Returned, s))"

definition close_streamer :: "handle \<Rightarrow> edge_service \<Rightarrow> outcome \<times> edge_service" where
  \<comment> \<open>service.py lines 273-277\<close>
  "close_streamer h s =
     (case streamer h of
        Faulty \<Rightarrow> (Raised (SdkError ''streamer''), s)
      | Truthy \<Rightarrow>
          (let s1 = emit (StreamerClose (hid h)) s in
           if streamer_close_raises h
           then (Returned, emit (Log WARNING ''Error closing streamer'') s1)
           else (Returned, s1))
      | _ \<Rightarrow> (Returned, s))"

definition stop_handle :: "handle \<Rightarrow> edge_service \<Rightarrow> outcome \<times> edge_service" where
  \<comment> \<open>service.py lines 279-282: \<^verbatim>\<open>stop()\<close> in its own try/except\<close>
  "stop_handle h s =
     (let s1 = emit (HandleStop (hid h)) s in
      if stop_raises h
      then (Returned, emit (Log ERROR ''Error stopping stream'') s1)
      else (Returned, s1))"

definition forced_release :: "handle \<Rightarrow> edge_service \<Rightarrow> outcome \<times> edge_service" where
  \<comment> \<open>service.py lines 286-291: the handler of the outer try, itself in a try/except\<close>
  "forced_release h s =
     (case streamer h of
        Faulty \<Rightarrow> (Returned, emit (Log ERROR ''Error during cleanup'') s)
      | Truthy \<Rightarrow>
          (if streamer_has_release h
           then (let s1 = emit (StreamerRelease (hid h)) s in
                 if streamer_release_raises h
                 then (Returned, emit (Log ERROR ''Error during cleanup'') s1)
                 else (Returned, s1))
           else (Returned, s))
      | _ \<Rightarrow> (Returned, s))"

definition stop_video_stream :: "edge_service \<Rightarrow> outcome \<times> edge_service" where
  \<comment> \<open>service.py lines 259-291\<close>
  "stop_video_stream s =
     (case video_stream s of
        None \<Rightarrow> (Returned, s)
      | Some stream_to_stop \<Rightarrow>
          (let s0 = s\<lparr>video_stream := None\<rparr> in
           try_except
             (and_then (and_then (close_peer_connection stream_to_stop s0)
                                 (close_streamer stream_to_stop))
                       (stop_handle stream_to_stop))
             (\<lambda>e s1. forced_release stream_to_stop
                        (emit (Log ERROR ''Error stopping video stream'') s1))))"

subsection \<open>The start sequence\<close>

definition setup_frame_monitoring :: "handle \<Rightarrow> edge_service \<Rightarrow> outcome \<times> edge_service" where
  \<comment> \<open>service.py lines 208-237: everything inside one try/except that logs a warning\<close>
  "setup_frame_monitoring h s =
     (case pc h of
        Faulty \<Rightarrow> (Returned, emit (Log WARNING ''Error setting up frame monitoring'') s)
      | Truthy \<Rightarrow>
          (if pc_monitoring_raises h
           then (Returned, emit (Log WARNING ''Error setting up frame monitoring'') s)
           else (case streamer h of
                   Faulty \<Rightarrow> (Returned, emit (Log WARNING ''Error setting up frame monitoring'') s)
                 | Truthy \<Rightarrow>
                     (if streamer_has_frame_count h
                      then (Returned, emit (CreateMonitorTask (hid h)) s)
                      else (Returned, s))
                 | _ \<Rightarrow> (Returned, s)))
      | _ \<Rightarrow> (Returned, s))"

definition or_default :: "int \<Rightarrow> int \<Rightarrow> int" where
  \<comment> \<open>Python's \<^verbatim>\<open>x or d\<close> on integers\<close>
  "or_default x d = (if x = 0 then d else x)"

definition start_attempt ::
  "cyberwave \<Rightarrow> edge_service \<Rightarrow> handle option \<times> outcome \<times> edge_service" where
  \<comment> \<open>service.py lines 183-197: the body of the try, with the local \<^verbatim>\<open>video_stream\<close>
      as it stands when the body ends\<close>
  "start_attempt c s =
     (let s1 = emit TimeReferenceNew s in
      if time_reference_raises c then (None, Raised (SdkError ''TimeReference''), s1)
      else
        (let s2 = emit (VideoStreamNew (twin_uuid (config s1))
                          (or_default (camera_id (config s1)) 0)
                          (or_default (camera_fps (config s1)) 20)) s1 in
         case new_video_stream c of
           None \<Rightarrow> (None, Raised (SdkError ''video_stream''), s2)
         | Some h \<Rightarrow>
             (let s3 = emit (HandleStart (hid h)) s2 in
              if start_raises h then (Some h, Raised (SdkError ''start''), s3)
              else (case setup_frame_monitoring h (s3\<lparr>video_stream := Some h\<rparr>) of
                      (r, s4) \<Rightarrow> (Some h, r, s4)))))"

definition start_cleanup :: "handle option \<Rightarrow> edge_service \<Rightarrow> edge_service" where
  \<comment> \<open>service.py lines 199-205\<close>
  "start_cleanup local s =
     (let s1 = emit (Log ERROR ''Error starting video stream'') s;
          s2 = (case local of
                  None \<Rightarrow> s1
                | Some h \<Rightarrow>
                    (let s' = emit (HandleStop (hid h)) s1 in
                     if stop_raises h then emit (Log ERROR ''Error during cleanup'') s' else s'))
      in s2\<lparr>video_stream := None\<rparr>)"

definition start_video_stream :: "edge_service \<Rightarrow> outcome \<times> edge_service" where
  \<comment> \<open>service.py lines 171-206\<close>
  "start_video_stream s =
     (case client s of
        None \<Rightarrow> (Raised (RuntimeError ''Client not connected''),
                 emit (Log ERROR ''Client not connected'') s)
      | Some c \<Rightarrow>
          (let s1 = (if video_stream s \<noteq> None
                     then snd (try_except (stop_video_stream s)
                            (\<lambda>e s'. (Returned, emit (Log ERROR ''Error stopping existing stream'') s')))
                     else s)
           in case start_attempt c s1 of
                (local, Returned, s2) \<Rightarrow> (Returned, s2)
              | (local, Raised e, s2) \<Rightarrow> (Raised e, start_cleanup local s2)))"

subsection \<open>The command handlers\<close>

definition publish_command_message :: "string \<Rightarrow> edge_service \<Rightarrow> outcome \<times> edge_service" where
  \<comment> \<open>Modelled from the spec: \<^verbatim>\<open>client.mqtt.publish_command_message\<close> belongs to the
      SDK, whose code is not in the repository. The command channel adapter provides
      \<^verbatim>\<open>publish(topic_for(device), Acknowledgment)\<close>, which carries the literal
      \<^verbatim>\<open>"ok"\<close> or \<^verbatim>\<open>"error"\<close> as the command result.\<close>
  "publish_command_message status s = (Returned, emit (Publish (twin_uuid (config s)) status) s)"

definition with_lock ::
  "(edge_service \<Rightarrow> outcome \<times> edge_service) \<Rightarrow> edge_service \<Rightarrow> outcome \<times> edge_service" where
  \<comment> \<open>\<^verbatim>\<open>async with self._video_operation_lock\<close>: released also when the body raises\<close>
  "with_lock body s = (case body (emit LockAcquire s) of (r, s') \<Rightarrow> (r, emit LockRelease s'))"

definition handle_start_video_command :: "edge_service \<Rightarrow> outcome \<times> edge_service" where
  \<comment> \<open>service.py lines 127-147\<close>
  "handle_start_video_command s =
     (if client s = None then (Returned, emit (Log ERROR ''Client not available'') s)
      else with_lock (\<lambda>s1.
        try_except
          (and_then
             (let video_already_running = (video_stream s1 \<noteq> None) in
              if \<not> video_already_running then start_video_stream s1 else (Returned, s1))
             (publish_command_message ''ok''))
          (\<lambda>e s2.
             (let s3 = emit (Log ERROR ''Error handling start_video command'') s2 in
              if client s3 \<noteq> None then publish_command_message ''error'' s3
              else (Returned, s3)))) s)"

definition handle_stop_video_command :: "edge_service \<Rightarrow> outcome \<times> edge_service" where
  \<comment> \<open>service.py lines 149-169\<close>
  "handle_stop_video_command s =
     (if client s = None then (Returned, emit (Log ERROR ''Client not available'') s)
      else with_lock (\<lambda>s1.
        try_except
          (and_then
             (let video_was_running = (video_stream s1 \<noteq> None) in
              if video_was_running then stop_video_stream s1 else (Returned, s1))
             (publish_command_message ''ok''))
          (\<lambda>e s2.
             (let s3 = emit (Log ERROR ''Error handling stop_video command'') s2 in
              if client s3 \<noteq> None then publish_command_message ''error'' s3
              else (Returned, s3)))) s)"

subsection \<open>The command callback\<close>

text \<open>
  The MQTT client hands the callback the decoded message body. Numbers enter the code
  only through their truth value.
\<close>

datatype json =
    JNull
  | JBool bool
  | JNum int
  | JStr string
  | JList "json list"
  | JDict "(string \<times> json) list"

fun truthy :: "json \<Rightarrow> bool" where
  "truthy JNull = False"
| "truthy (JBool b) = b"
| "truthy (JNum n) = (n \<noteq> 0)"
| "truthy (JStr s) = (s \<noteq> [])"
| "truthy (JList xs) = (xs \<noteq> [])"
| "truthy (JDict kv) = (kv \<noteq> [])"

definition schedule :: "coroutine \<Rightarrow> event_loop \<Rightarrow> edge_service \<Rightarrow> coroutine option \<times> edge_service" where
  \<comment> \<open>\<^verbatim>\<open>asyncio.run_coroutine_threadsafe\<close> raises on a closed loop; the callback's own
      \<^verbatim>\<open>except Exception\<close> logs it\<close>
  "schedule co loop s =
     (case loop of
        LoopOpen \<Rightarrow> (Some co, emit (Schedule co) s)
      | LoopClosed \<Rightarrow> (None, emit (Log ERROR ''Error processing command message'') s))"

definition payload_of :: "json \<Rightarrow> (string \<times> json) list" where
  \<comment> \<open>\<^verbatim>\<open>payload = data if isinstance(data, dict) else {}\<close>\<close>
  "payload_of data = (case data of JDict kv \<Rightarrow> kv | _ \<Rightarrow> [])"

definition on_command_message :: "json \<Rightarrow> edge_service \<Rightarrow> coroutine option \<times> edge_service" where
  \<comment> \<open>service.py lines 93-123; the result names the coroutine handed to the event loop\<close>
  "on_command_message data s =
     (let payload = payload_of data in
      if ''status'' \<in> set (map fst payload) then (None, s)
      else
        (let command_type = map_of payload ''command'' in
         if \<not> (case command_type of None \<Rightarrow> False | Some v \<Rightarrow> truthy v)
         then (None, emit (Log WARNING ''Command message missing command field'') s)
         else
           (case event_loop s of
              None \<Rightarrow> (None, emit (Log ERROR ''Event loop not available, cannot process command'') s)
            | Some loop \<Rightarrow>
                if command_type = Some (JStr ''start_video'') then schedule HandleStartVideo loop s
                else if command_type = Some (JStr ''stop_video'') then schedule HandleStopVideo loop s
                else (None, emit (Log WARNING ''Unknown command type'') s))))"

definition run_coroutine :: "coroutine \<Rightarrow> edge_service \<Rightarrow> outcome \<times> edge_service" where
  "run_coroutine co s =
     (case co of
        HandleStartVideo \<Rightarrow> handle_start_video_command s
      | HandleStopVideo \<Rightarrow> handle_stop_video_command s)"

definition deliver :: "json \<Rightarrow> edge_service \<Rightarrow> edge_service" where
  \<comment> \<open>one inbound message: the callback, then the coroutine it scheduled, run by the
      event loop; an exception of the coroutine stays in its future\<close>
  "deliver data s =
     (case on_command_message data s of
        (None, s') \<Rightarrow> s'
      | (Some co, s') \<Rightarrow> snd (run_coroutine co s'))"

subsection \<open>Connecting, running and shutting down\<close>

definition str_truthy :: "string option \<Rightarrow> bool" where
  \<comment> \<open>the truth value of an \<^verbatim>\<open>Optional[str]\<close>\<close>
  "str_truthy v = (case v of None \<Rightarrow> False | Some x \<Rightarrow> x \<noteq> [])"

definition subscribe_to_commands :: "edge_service \<Rightarrow> outcome \<times> edge_service" where
  \<comment> \<open>service.py lines 70-125\<close>
  "subscribe_to_commands s =
     (case client s of
        None \<Rightarrow> (Returned, emit (Log ERROR ''Client or twin_uuid not available for command subscription'') s)
      | Some c \<Rightarrow>
          if \<not> str_truthy (twin_uuid (config s))
          then (Returned, emit (Log ERROR ''Client or twin_uuid not available for command subscription'') s)
          else
            (let s1 = emit (Subscribe (twin_uuid (config s))) s in
             if subscribe_raises c then (Raised (SdkError ''subscribe_command_message''), s1)
             else (Returned, s1\<lparr>command_callback := True\<rparr>)))"

definition connect :: "cyberwave option \<Rightarrow> edge_service \<Rightarrow> outcome \<times> edge_service" where
  \<comment> \<open>service.py lines 35-49; the argument is the client that \<^verbatim>\<open>Cyberwave(...)\<close>
      returns (\<open>None\<close>: the constructor raises)\<close>
  "connect sdk s =
     (let s1 = emit (CyberwaveNew (cyberwave_token (config s)) (cyberwave_base_url (config s))) s in
      case sdk of
        None \<Rightarrow> (Raised (SdkError ''Cyberwave''), s1)
      | Some c \<Rightarrow>
          (let s2 = s1\<lparr>client := Some c\<rparr> in
           and_then
             (if \<not> mqtt_connected c
              then (if mqtt_connect_raises c
                    then (Raised (SdkError ''mqtt.connect''), emit MqttConnect s2)
                    else (Returned, emit MqttConnect s2))
              else (Returned, s2))
             subscribe_to_commands))"

definition shutdown :: "edge_service \<Rightarrow> outcome \<times> edge_service" where
  \<comment> \<open>service.py lines 293-310\<close>
  "shutdown s =
     (let s1 = s\<lparr>running := False\<rparr> in
      and_then
        (if video_stream s1 \<noteq> None then stop_video_stream s1 else (Returned, s1))
        (\<lambda>s2. case client s2 of
                 None \<Rightarrow> (Returned, s2)
               | Some c \<Rightarrow>
                   (let s3 = emit MqttDisconnect s2;
                        s4 = (if mqtt_disconnect_raises c
                              then emit (Log ERROR ''Error disconnecting from MQTT'') s3 else s3)
                    in if has_disconnect c
                       then (let s5 = emit ClientDisconnect s4 in
                             if disconnect_raises c
                             then (Returned, emit (Log ERROR ''Error disconnecting from Cyberwave client'') s5)
                             else (Returned, s5))
                       else (Returned, s4))))"

datatype tick = Quiet | Message json | Signal

definition apply_tick :: "tick \<Rightarrow> edge_service \<Rightarrow> edge_service" where
  \<comment> \<open>what happens during one \<^verbatim>\<open>asyncio.sleep(1)\<close> of the idle loop\<close>
  "apply_tick t s =
     (case t of
        Quiet \<Rightarrow> s
      | Message d \<Rightarrow> (if command_callback s then deliver d s else s)
      | Signal \<Rightarrow> (emit (Log INFO ''Received signal, initiating shutdown...'') s)\<lparr>running := False\<rparr>)"

fun idle :: "tick list \<Rightarrow> edge_service \<Rightarrow> edge_service option" where
  \<comment> \<open>\<^verbatim>\<open>while self.running: await asyncio.sleep(1)\<close>; \<open>None\<close>: still running when
      the ticks are used up\<close>
  "idle [] s = (if running s then None else Some s)"
| "idle (t # ts) s = (if running s then idle ts (apply_tick t s) else Some s)"

definition finally_shutdown :: "outcome \<times> edge_service \<Rightarrow> outcome \<times> edge_service" where
  \<comment> \<open>\<^verbatim>\<open>finally: await self.shutdown()\<close>\<close>
  "finally_shutdown r =
     (case shutdown (snd r) of
        (Returned, s') \<Rightarrow> (fst r, s')
      | (Raised e, s') \<Rightarrow> (Raised e, s'))"

definition run :: "cyberwave option \<Rightarrow> tick list \<Rightarrow> edge_service \<Rightarrow> (outcome \<times> edge_service) option" where
  \<comment> \<open>service.py lines 51-68\<close>
  "run sdk ticks s =
     (let s1 = s\<lparr>running := True, event_loop := Some LoopOpen\<rparr> in
      case connect sdk s1 of
        (Raised e, s2) \<Rightarrow>
          Some (finally_shutdown (Raised e, emit (Log ERROR ''Error in edge service'') s2))
      | (Returned, s2) \<Rightarrow>
          (case idle ticks (emit (Log INFO ''Edge service is running. Press Ctrl+C to stop.'') s2) of
             None \<Rightarrow> None
           | Some s3 \<Rightarrow> Some (finally_shutdown (Returned, s3))))"

subsection \<open>Configuration loading\<close>

type_synonym environ = "string \<rightharpoonup> string"

type_synonym log_record = "level \<times> string"

definition getenv :: "environ \<Rightarrow> string \<Rightarrow> string option \<Rightarrow> string option" where
  \<comment> \<open>\<^verbatim>\<open>os.getenv(key, default)\<close>\<close>
  "getenv env k d = (case env k of Some v \<Rightarrow> Some v | None \<Rightarrow> d)"

definition getenv_str :: "environ \<Rightarrow> string \<Rightarrow> string \<Rightarrow> string" where
  "getenv_str env k d = (case env k of Some v \<Rightarrow> v | None \<Rightarrow> d)"

definition getenv_int :: "(string \<Rightarrow> int option) \<Rightarrow> environ \<Rightarrow> string \<Rightarrow> int \<Rightarrow> exn + int" where
  \<comment> \<open>\<^verbatim>\<open>int(os.getenv(key, default))\<close> with an integer default; \<open>py_int\<close> is Python's
      \<^verbatim>\<open>int\<close> on strings (\<open>None\<close>: ValueError)\<close>
  "getenv_int py_int env k d =
     (case env k of
        None \<Rightarrow> Inr d
      | Some v \<Rightarrow> (case py_int v of
                     None \<Rightarrow> Inl (ValueError ''invalid literal for int() with base 10'')
                   | Some n \<Rightarrow> Inr n))"

definition EdgeConfig :: "(string \<Rightarrow> int option) \<Rightarrow> environ \<Rightarrow> exn + edge_config" where
  \<comment> \<open>config.py lines 18-66: the dataclass defaults, then \<^verbatim>\<open>__post_init__\<close>\<close>
  "EdgeConfig py_int env =
     (case getenv_int py_int env ''CYBERWAVE_MQTT_PORT'' 1883 of
        Inl e \<Rightarrow> Inl e
      | Inr port \<Rightarrow>
     (case getenv_int py_int env ''CAMERA_ID'' 0 of
        Inl e \<Rightarrow> Inl e
      | Inr cam \<Rightarrow>
     (case getenv_int py_int env ''CAMERA_FPS'' 10 of
        Inl e \<Rightarrow> Inl e
      | Inr fps \<Rightarrow>
          Inr \<lparr> cyberwave_token = getenv env ''CYBERWAVE_TOKEN'' None,
                cyberwave_base_url = getenv_str env ''CYBERWAVE_BASE_URL'' ''https://api.cyberwave.com'',
                mqtt_host = getenv env ''CYBERWAVE_MQTT_HOST'' None,
                mqtt_port = port,
                mqtt_username = getenv env ''CYBERWAVE_MQTT_USERNAME'' None,
                mqtt_password = getenv env ''CYBERWAVE_MQTT_PASSWORD'' None,
                edge_uuid = getenv_str env ''CYBERWAVE_EDGE_UUID'' ''edge-device-001'',
                twin_uuid = getenv env ''CYBERWAVE_TWIN_UUID'' None,
                camera_id = cam,
                camera_fps = fps,
                log_level = getenv_str env ''LOG_LEVEL'' ''INFO'' \<rparr>)))"

definition validate :: "edge_config \<Rightarrow> bool \<times> log_record list" where
  \<comment> \<open>config.py lines 68-78\<close>
  "validate c =
     (if \<not> str_truthy (cyberwave_token c) then (False, [(ERROR, ''CYBERWAVE_TOKEN is required'')])
      else if \<not> str_truthy (twin_uuid c) then (False, [(ERROR, ''CYBERWAVE_TWIN_UUID is required'')])
      else (True, []))"

definition is_space :: "char \<Rightarrow> bool" where
  \<comment> \<open>the ASCII characters that \<^verbatim>\<open>str.strip()\<close> removes\<close>
  "is_space ch = (ch \<in> set [CHR 0x09, CHR 0x0A, CHR 0x0B, CHR 0x0C, CHR 0x0D,
                             CHR 0x1C, CHR 0x1D, CHR 0x1E, CHR 0x1F, CHR 0x20])"

definition strip :: "string \<Rightarrow> string" where
  "strip s = rev (dropWhile is_space (rev (dropWhile is_space s)))"

definition load_dotenv :: "environ \<Rightarrow> environ \<Rightarrow> environ" where
  \<comment> \<open>\<^verbatim>\<open>load_dotenv(dotenv_path=..., override=False)\<close>: a variable already set wins\<close>
  "load_dotenv file env = file ++ env"

definition load_env_file :: "environ option \<Rightarrow> environ \<Rightarrow> environ \<times> log_record list" where
  \<comment> \<open>config.py lines 94-97: the file is read only if it exists\<close>
  "load_env_file env_file env =
     (case env_file of
        None \<Rightarrow> (env, [])
      | Some file \<Rightarrow> (load_dotenv file env, [(INFO, ''Loading configuration from'')]))"

definition load_config ::
  "(string \<Rightarrow> int option) \<Rightarrow> environ option \<Rightarrow> environ \<Rightarrow> (exn + edge_config) \<times> environ \<times> log_record list" where
  \<comment> \<open>config.py lines 81-112; the second argument is the parsed \<^verbatim>\<open>.env\<close> file
      (\<open>None\<close>: no such file), the third \<^verbatim>\<open>os.environ\<close>\<close>
  "load_config py_int env_file env =
     (let (env1, log1) = load_env_file env_file env;
          env_value = strip (getenv_str env1 ''ENVIRONMENT'' []);
          (env2, log2) =
            (if env_value = [] then (env1(''ENVIRONMENT'' \<mapsto> ''production''), log1)
             else (env1, log1 @ [(WARNING, ''.env file not found, using environment variables only'')]))
      in case EdgeConfig py_int env2 of
           Inl e \<Rightarrow> (Inl e, env2, log2)
         | Inr c \<Rightarrow>
             (let log3 = log2 @ [(INFO, ''Configuration loaded'')] in
              case validate c of
                (False, logv) \<Rightarrow>
                  (Inl (ValueError ''Invalid configuration. Please check your .env file or environment variables.''),
                   env2, log3 @ logv)
              | (True, logv) \<Rightarrow> (Inr c, env2, log3 @ logv)))"

subsection \<open>The process\<close>

text \<open>
  Everything outside the program that \<^verbatim>\<open>async_main\<close> depends on: the file system
  (the \<^verbatim>\<open>logs\<close> directory, the \<^verbatim>\<open>.env\<close> file), the environment as it is when
  \<^verbatim>\<open>load_config\<close> is called (after the \<^verbatim>\<open>load_dotenv()\<close> of the module import),
  Python's \<^verbatim>\<open>int\<close>, the SDK client that the constructor returns, and what arrives
  while the service idles. Messages and signals are taken one per sleep of the idle loop,
  and a scheduled handler runs to its end before the next one: the lock of the handlers
  gives the same order.
\<close>

record world =
  logs_dir_exists :: bool
  file_handler_raises :: bool
  dotenv :: "environ option"
  os_environ :: environ
  py_int :: "string \<Rightarrow> int option"
  sdk :: "cyberwave option"
  ticks :: "tick list"

datatype ending = Completed | SysExit int | Uncaught exn

record process_result =
  ending :: ending
  process_log :: "log_record list"
  service :: "edge_service option"

definition upper :: "string \<Rightarrow> string" where
  \<comment> \<open>\<^verbatim>\<open>str.upper()\<close> on ASCII letters\<close>
  "upper s = map (\<lambda>ch. let n = (of_char ch :: nat) in
                        if 97 \<le> n \<and> n \<le> 122 then char_of (n - 32) else ch) s"

definition level_name_known :: "string \<Rightarrow> bool" where
  \<comment> \<open>the names for which \<^verbatim>\<open>setLevel(getattr(logging, name))\<close> does not raise\<close>
  "level_name_known name =
     (name \<in> set [''CRITICAL'', ''FATAL'', ''ERROR'', ''WARNING'', ''WARN'', ''INFO'', ''DEBUG'', ''NOTSET''])"

definition new_edge_service :: "edge_config \<Rightarrow> edge_service" where
  \<comment> \<open>service.py lines 26-33\<close>
  "new_edge_service c =
     \<lparr> config = c, running = False, client = None, video_stream = None,
       event_loop = None, command_callback = False, trace = [] \<rparr>"

definition fatal :: "log_record list \<Rightarrow> edge_service option \<Rightarrow> process_result" where
  \<comment> \<open>service.py lines 344-346\<close>
  "fatal lg sv = \<lparr> ending = SysExit 1, process_log = lg @ [(ERROR, ''Fatal error'')], service = sv \<rparr>"

definition async_main :: "world \<Rightarrow> process_result option" where
  \<comment> \<open>service.py lines 313-346; \<open>None\<close>: the service is still running when the ticks
      are used up\<close>
  "async_main w =
     (if logs_dir_exists w \<and> file_handler_raises w
      then Some \<lparr> ending = Uncaught (OSError ''./logs/cyberwave-edge.log''),
                  process_log = [], service = None \<rparr>
      else
        (let log0 = [(INFO, ''Starting Cyberwave Edge Python service...'')] in
         case load_config (py_int w) (dotenv w) (os_environ w) of
           (Inl e, env', logc) \<Rightarrow> Some (fatal (log0 @ logc) None)
         | (Inr c, env', logc) \<Rightarrow>
             (let log1 = log0 @ logc @ [(INFO, ''Configuration loaded for edge device'')] in
              if \<not> level_name_known (upper (log_level c))
              then Some (fatal log1 None)
              else
                (case run (sdk w) (ticks w) (new_edge_service c) of
                   None \<Rightarrow> None
                 | Some (Raised e, s) \<Rightarrow> Some (fatal log1 (Some s))
                 | Some (Returned, s) \<Rightarrow>
                     Some \<lparr> ending = Completed, process_log = log1, service = Some s \<rparr>))))"

definition main :: "world \<Rightarrow> process_result option" where
  \<comment> \<open>service.py lines 349-351\<close>
  "main w = async_main w"

definition module_main :: "world \<Rightarrow> process_result option" where
  \<comment> \<open>__main__.py: \<^verbatim>\<open>asyncio.run(main())\<close> is given the \<^verbatim>\<open>None\<close> that
      \<^verbatim>\<open>main()\<close> returns\<close>
  "module_main w =
     (case main w of
        None \<Rightarrow> None
      | Some r \<Rightarrow>
          (case ending r of
             Completed \<Rightarrow> Some (r\<lparr>ending := Uncaught (ValueError ''a coroutine was expected, got None'')\<rparr>)
           | _ \<Rightarrow> Some r))"

definition exit_status :: "ending \<Rightarrow> int" where
  \<comment> \<open>the status the interpreter exits with\<close>
  "exit_status e = (case e of Completed \<Rightarrow> 0 | SysExit n \<Rightarrow> n | Uncaught x \<Rightarrow> 1)"

definition is_connection_event :: "event \<Rightarrow> bool" where
  "is_connection_event e =
     (case e of CyberwaveNew t u \<Rightarrow> True | MqttConnect \<Rightarrow> True | Subscribe t \<Rightarrow> True | _ \<Rightarrow> False)"

definition connection_attempted :: "process_result \<Rightarrow> bool" where
  "connection_attempted r =
     (case service r of
        None \<Rightarrow> False
      | Some s \<Rightarrow> list_ex (\<lambda>ob. is_connection_event (fst ob)) (trace s))"

subsection \<open>A concrete device\<close>

definition demo_handle :: handle where
  "demo_handle =
     \<lparr> hid = 1, pc = Truthy, pc_close_raises = False, pc_monitoring_raises = False,
       streamer = Truthy, streamer_close_raises = False, streamer_has_release = True,
       streamer_release_raises = False, streamer_has_frame_count = True,
       start_raises = False, stop_raises = False \<rparr>"

definition demo_client :: cyberwave where
  "demo_client =
     \<lparr> time_reference_raises = False, new_video_stream = Some demo_handle,
       mqtt_connected = False, mqtt_connect_raises = False, subscribe_raises = False,
       mqtt_disconnect_raises = False, has_disconnect = True, disconnect_raises = False \<rparr>"

definition demo_config :: edge_config where
  "demo_config =
     \<lparr> cyberwave_token = Some ''token'', cyberwave_base_url = ''https://api.cyberwave.com'',
       mqtt_host = None, mqtt_port = 1883, mqtt_username = None, mqtt_password = None,
       edge_uuid = ''edge-device-001'', twin_uuid = Some ''twin'',
       camera_id = 0, camera_fps = 10, log_level = ''INFO'' \<rparr>"

definition demo_service :: edge_service where
  \<comment> \<open>connected, no stream\<close>
  "demo_service =
     \<lparr> config = demo_config, running = True, client = Some demo_client, video_stream = None,
       event_loop = Some LoopOpen, command_callback = True, trace = [] \<rparr>"

definition demo_world :: world where
  \<comment> \<open>no \<^verbatim>\<open>.env\<close> file and an environment with the twin but not the token\<close>
  "demo_world =
     \<lparr> logs_dir_exists = False, file_handler_raises = False, dotenv = None,
       os_environ = [''CYBERWAVE_TWIN_UUID'' \<mapsto> ''twin''],
       py_int = (\<lambda>v. None), sdk = Some demo_client, ticks = [Signal] \<rparr>"

definition running_service :: edge_service where
  \<comment> \<open>connected, streaming\<close>
  "running_service = demo_service\<lparr>video_stream := Some demo_handle\<rparr>"

definition failing_handle :: handle where
  "failing_handle = demo_handle\<lparr>start_raises := True\<rparr>"

definition failing_client :: cyberwave where
  "failing_client = demo_client\<lparr>new_video_stream := Some failing_handle\<rparr>"

definition failing_service :: edge_service where
  \<comment> \<open>connected, no stream, and the next handle will not start\<close>
  "failing_service = demo_service\<lparr>client := Some failing_client\<rparr>"

definition stubborn_handle :: handle where
  "stubborn_handle = demo_handle\<lparr>stop_raises := True\<rparr>"

definition stubborn_service :: edge_service where
  \<comment> \<open>connected, streaming through a handle whose \<^verbatim>\<open>stop()\<close> raises\<close>
  "stubborn_service = demo_service\<lparr>video_stream := Some stubborn_handle\<rparr>"


section \<open>Properties\<close>

subsection \<open>Auxiliary facts\<close>

lemmas flow_defs = and_then_def try_except_def with_lock_def publish_command_message_def

lemmas stop_defs = stop_video_stream_def close_peer_connection_def close_streamer_def
  stop_handle_def forced_release_def

lemmas start_defs = start_video_stream_def start_attempt_def start_cleanup_def
  setup_frame_monitoring_def

lemmas handler_defs = handle_start_video_command_def handle_stop_video_command_def

lemmas callback_defs = on_command_message_def payload_of_def schedule_def deliver_def
  run_coroutine_def

lemmas demo_defs = demo_handle_def demo_client_def demo_config_def demo_service_def

lemmas failing_defs = failing_handle_def failing_client_def failing_service_def

lemmas stubborn_defs = stubborn_handle_def stubborn_service_def

lemmas run_defs = handler_defs flow_defs start_defs stop_defs callback_defs
  emit_def Let_def published_def events_since_def or_default_def case_prod_beta

lemma emit_simps [simp]:
  "trace (emit e s) = trace s @ [(e, video_stream s = None)]"
  "video_stream (emit e s) = video_stream s"
  "client (emit e s) = client s"
  "config (emit e s) = config s"
  "running (emit e s) = running s"
  "event_loop (emit e s) = event_loop s"
  "command_callback (emit e s) = command_callback s"
  by (simp_all add: emit_def)

lemma published_emit [simp]:
  "published (emit e s) = published s @ (case e of Publish t r \<Rightarrow> [r] | _ \<Rightarrow> [])"
  by (simp add: published_def emit_def)

lemma published_video_stream_update [simp]:
  "published (s\<lparr>video_stream := v\<rparr>) = published s"
  by (simp add: published_def)

lemma stop_video_stream_returns: "fst (stop_video_stream s) = Returned"
  by (simp add: stop_defs flow_defs Let_def split: option.splits probe.splits)

lemma stop_video_stream_published: "published (snd (stop_video_stream s)) = published s"
  by (simp add: stop_defs flow_defs Let_def split: option.splits probe.splits)

lemma stop_video_stream_clears: "video_stream (snd (stop_video_stream s)) = None"
  by (simp add: stop_defs flow_defs Let_def split: option.splits probe.splits)

lemma stop_video_stream_stamps:
  "\<forall>ob \<in> set (events_since s (snd (stop_video_stream s))). snd ob"
  by (simp add: stop_defs flow_defs Let_def events_since_def split: option.splits probe.splits)

text \<open>
  The start sequence on a state without a handle: it returns exactly when the time
  reference, the constructor and \<^verbatim>\<open>start()\<close> all succeed, and then the new handle
  is stored; otherwise it raises and no handle is stored.
\<close>

lemma start_video_stream_fresh:
  assumes "client s = Some c" "video_stream s = None"
  shows "case start_video_stream s of (r, s') \<Rightarrow>
           published s' = published s \<and> client s' = client s \<and>
           (if \<not> time_reference_raises c \<and>
               (case new_video_stream c of None \<Rightarrow> False | Some h \<Rightarrow> \<not> start_raises h)
            then r = Returned \<and> video_stream s' = new_video_stream c
            else r \<noteq> Returned \<and> video_stream s' = None)"
  using assms
  by (auto simp add: start_defs Let_def
      split: option.splits prod.splits outcome.splits if_splits probe.splits)

lemma validate_rejects:
  "\<not> str_truthy (cyberwave_token cfg) \<or> \<not> str_truthy (twin_uuid cfg) \<Longrightarrow> fst (validate cfg) = False"
  by (auto simp add: validate_def)

lemma EdgeConfig_fields:
  "EdgeConfig p env = Inr cfg \<Longrightarrow>
     cyberwave_token cfg = env ''CYBERWAVE_TOKEN'' \<and> twin_uuid cfg = env ''CYBERWAVE_TWIN_UUID''"
  by (auto simp add: EdgeConfig_def getenv_def split: sum.splits option.splits)

lemma load_config_rejects:
  assumes "\<not> str_truthy (fst (load_env_file env_file env) ''CYBERWAVE_TOKEN'') \<or>
           \<not> str_truthy (fst (load_env_file env_file env) ''CYBERWAVE_TWIN_UUID'')"
  shows "\<exists>e env' lg. load_config p env_file env = (Inl e, env', lg)"
proof -
  define env1 where "env1 = fst (load_env_file env_file env)"
  define env2 where "env2 = (if strip (getenv_str env1 ''ENVIRONMENT'' []) = []
                             then env1(''ENVIRONMENT'' \<mapsto> ''production'') else env1)"
  have bad: "\<not> str_truthy (env2 ''CYBERWAVE_TOKEN'') \<or> \<not> str_truthy (env2 ''CYBERWAVE_TWIN_UUID'')"
    using assms by (simp add: env1_def env2_def)
  have shape: "fst (load_config p env_file env) =
      (case EdgeConfig p env2 of
         Inl e \<Rightarrow> Inl e
       | Inr c \<Rightarrow>
           (if fst (validate c) then Inr c
            else Inl (ValueError ''Invalid configuration. Please check your .env file or environment variables.'')))"
    by (auto simp add: load_config_def env2_def env1_def Let_def
        split: sum.splits prod.splits bool.splits)
  have "\<exists>e. fst (load_config p env_file env) = Inl e"
  proof (cases "EdgeConfig p env2")
    case (Inl e)
    then show ?thesis by (simp add: shape)
  next
    case (Inr c)
    from EdgeConfig_fields[OF Inr] bad have "fst (validate c) = False"
      by (intro validate_rejects) simp
    with Inr show ?thesis by (simp add: shape)
  qed
  then show ?thesis by (metis prod.collapse)
qed

text \<open>
  With both the token and the twin in the environment the process does connect: the
  client is constructed, the MQTT connection made and the command topic subscribed.
\<close>

lemma async_main_connects_when_configured:
  "\<exists>r. async_main (demo_world\<lparr>os_environ :=
            [''CYBERWAVE_TWIN_UUID'' \<mapsto> ''twin'', ''CYBERWAVE_TOKEN'' \<mapsto> ''token'']\<rparr>) = Some r
       \<and> ending r = Completed \<and> connection_attempted r"
  by (simp add: async_main_def demo_world_def demo_defs load_config_def load_env_file_def
      EdgeConfig_def validate_def getenv_def getenv_str_def getenv_int_def
      str_truthy_def strip_def level_name_known_def upper_def run_def connect_def
      subscribe_to_commands_def flow_defs new_edge_service_def apply_tick_def
      finally_shutdown_def shutdown_def Let_def connection_attempted_def
      is_connection_event_def emit_def)

text \<open>
  The scenario of a device that is started twice and stopped twice: one stream, four
  acknowledgments.
\<close>

lemma lifecycle_scenario:
  "video_stream (deliver (JDict [(''command'', JStr ''start_video'')]) demo_service) = Some demo_handle \<and>
   video_stream (deliver (JDict [(''command'', JStr ''start_video'')])
     (deliver (JDict [(''command'', JStr ''start_video'')]) demo_service)) = Some demo_handle \<and>
   video_stream (deliver (JDict [(''command'', JStr ''stop_video'')])
     (deliver (JDict [(''command'', JStr ''start_video'')])
       (deliver (JDict [(''command'', JStr ''start_video'')]) demo_service))) = None \<and>
   map fst (trace (deliver (JDict [(''command'', JStr ''stop_video'')])
     (deliver (JDict [(''command'', JStr ''stop_video'')])
       (deliver (JDict [(''command'', JStr ''start_video'')])
         (deliver (JDict [(''command'', JStr ''start_video'')]) demo_service))))) =
     [Schedule HandleStartVideo, LockAcquire, TimeReferenceNew,
      VideoStreamNew (Some ''twin'') 0 10, HandleStart 1, CreateMonitorTask 1,
      Publish (Some ''twin'') ''ok'', LockRelease,
      Schedule HandleStartVideo, LockAcquire, Publish (Some ''twin'') ''ok'', LockRelease,
      Schedule HandleStopVideo, LockAcquire, PcClose 1, StreamerClose 1, HandleStop 1,
      Publish (Some ''twin'') ''ok'', LockRelease,
      Schedule HandleStopVideo, LockAcquire, Publish (Some ''twin'') ''ok'', LockRelease]"
  by (simp add: demo_defs run_defs)

subsection \<open>Acknowledgments\<close>

text \<open>
  Claim C1. With a connected client, the handler of a \<^verbatim>\<open>start_video\<close> command and the
  handler of a \<^verbatim>\<open>stop_video\<close> command each return normally and publish exactly one
  acknowledgment. For a start it is \<^verbatim>\<open>ok\<close> when a stream was already running or the
  start sequence succeeded (a handle is held afterwards) and \<^verbatim>\<open>error\<close> when the start
  sequence raised (no handle is held afterwards); for a stop it is \<^verbatim>\<open>ok\<close>, the stop
  sequence never raising. A message whose command is neither of the two schedules no
  handler and publishes nothing.
\<close>

theorem ack_exactly_one_per_command:
  "(client s = Some c \<longrightarrow>
      (case handle_start_video_command s of (r, s') \<Rightarrow>
         r = Returned \<and>
         (if video_stream s \<noteq> None \<or>
             (\<not> time_reference_raises c \<and>
              (case new_video_stream c of None \<Rightarrow> False | Some h \<Rightarrow> \<not> start_raises h))
          then published s' = published s @ [''ok''] \<and> video_stream s' \<noteq> None
          else published s' = published s @ [''error''] \<and> video_stream s' = None)) \<and>
      (case handle_stop_video_command s of (r, s') \<Rightarrow>
         r = Returned \<and> published s' = published s @ [''ok''] \<and> video_stream s' = None)) \<and>
   (map_of (payload_of data) ''command'' \<notin> {Some (JStr ''start_video''), Some (JStr ''stop_video'')} \<longrightarrow>
      fst (on_command_message data s) = None \<and> published (deliver data s) = published s)"
proof (intro conjI impI)
  assume c: "client s = Some c"
  show "case handle_start_video_command s of (r, s') \<Rightarrow>
         r = Returned \<and>
         (if video_stream s \<noteq> None \<or>
             (\<not> time_reference_raises c \<and>
              (case new_video_stream c of None \<Rightarrow> False | Some h \<Rightarrow> \<not> start_raises h))
          then published s' = published s @ [''ok''] \<and> video_stream s' \<noteq> None
          else published s' = published s @ [''error''] \<and> video_stream s' = None)"
  proof (cases "video_stream s")
    case (Some h)
    with c show ?thesis
      by (simp add: handle_start_video_command_def flow_defs)
  next
    case None
    let ?s1 = "emit LockAcquire s"
    have "client ?s1 = Some c" "video_stream ?s1 = None"
      using c None by simp_all
    from start_video_stream_fresh[OF this] c None show ?thesis
      by (auto simp add: handle_start_video_command_def flow_defs
          split: prod.splits outcome.splits if_splits option.splits)
  qed
next
  assume c: "client s = Some c"
  show "case handle_stop_video_command s of (r, s') \<Rightarrow>
         r = Returned \<and> published s' = published s @ [''ok''] \<and> video_stream s' = None"
  proof (cases "video_stream s")
    case None
    with c show ?thesis
      by (simp add: handle_stop_video_command_def flow_defs)
  next
    case (Some h)
    let ?s1 = "emit LockAcquire s"
    from stop_video_stream_returns[of ?s1] stop_video_stream_published[of ?s1]
      stop_video_stream_clears[of ?s1] c Some show ?thesis
      by (auto simp add: handle_stop_video_command_def flow_defs
          split: prod.splits outcome.splits)
  qed
next
  assume u: "map_of (payload_of data) ''command'' \<notin> {Some (JStr ''start_video''), Some (JStr ''stop_video'')}"
  then show "fst (on_command_message data s) = None"
    by (auto simp add: on_command_message_def Let_def schedule_def
        split: option.splits event_loop.splits)
  then show "published (deliver data s) = published s"
    using u
    by (auto simp add: deliver_def on_command_message_def Let_def schedule_def
        split: option.splits event_loop.splits prod.splits)
qed

theorem ack_exactly_one_per_command_witness:
  "client demo_service = Some demo_client \<and>
   published (snd (handle_start_video_command demo_service)) = [''ok''] \<and>
   video_stream (snd (handle_start_video_command demo_service)) = Some demo_handle \<and>
   published (snd (handle_stop_video_command demo_service)) = [''ok''] \<and>
   map_of (payload_of (JDict [(''command'', JStr ''reboot'')])) ''command'' = Some (JStr ''reboot'') \<and>
   published (deliver (JDict [(''command'', JStr ''reboot'')]) demo_service) = []"
  using ack_exactly_one_per_command
    [of demo_service demo_client "JDict [(''command'', JStr ''reboot'')]"]
  by (simp add: demo_defs handler_defs flow_defs start_defs callback_defs published_def
      emit_def Let_def)

text \<open>
  Claim C2. When the handler runs the start sequence and the handle's \<^verbatim>\<open>start()\<close>
  raises, the sequence calls \<^verbatim>\<open>stop()\<close> on the partial handle (an error of that call
  is only logged), leaves \<^verbatim>\<open>video_stream\<close> at \<^verbatim>\<open>None\<close> and re-raises; the handler
  catches the exception, publishes \<^verbatim>\<open>error\<close> and returns normally.
\<close>

theorem start_failure_contained:
  assumes "client s = Some c" "video_stream s = None"
    and "\<not> time_reference_raises c" "new_video_stream c = Some h" "start_raises h"
  shows "fst (start_video_stream s) = Raised (SdkError ''start'') \<and>
         (case handle_start_video_command s of (r, s') \<Rightarrow>
            r = Returned \<and> video_stream s' = None \<and>
            published s' = published s @ [''error''] \<and>
            map fst (events_since s s') =
              [LockAcquire, TimeReferenceNew,
               VideoStreamNew (twin_uuid (config s)) (or_default (camera_id (config s)) 0)
                 (or_default (camera_fps (config s)) 20),
               HandleStart (hid h),
               Log ERROR ''Error starting video stream'',
               HandleStop (hid h)]
              @ (if stop_raises h then [Log ERROR ''Error during cleanup''] else [])
              @ [Log ERROR ''Error handling start_video command'',
                 Publish (twin_uuid (config s)) ''error'',
                 LockRelease])"
  using assms
  by (simp add: handle_start_video_command_def flow_defs start_defs Let_def events_since_def)

theorem start_failure_contained_witness:
  "client failing_service = Some failing_client \<and> video_stream failing_service = None \<and>
   \<not> time_reference_raises failing_client \<and>
   new_video_stream failing_client = Some failing_handle \<and> start_raises failing_handle \<and>
   fst (start_video_stream failing_service) = Raised (SdkError ''start'') \<and>
   fst (handle_start_video_command failing_service) = Returned \<and>
   video_stream (snd (handle_start_video_command failing_service)) = None \<and>
   published (snd (handle_start_video_command failing_service)) = [''error''] \<and>
   HandleStop 1 \<in> fst ` set (trace (snd (handle_start_video_command failing_service)))"
proof -
  have h: "client failing_service = Some failing_client" "video_stream failing_service = None"
    "\<not> time_reference_raises failing_client"
    "new_video_stream failing_client = Some failing_handle" "start_raises failing_handle"
    by (simp_all add: failing_defs demo_defs)
  from start_failure_contained[OF h] h show ?thesis
    by (simp add: failing_defs demo_defs run_defs)
qed

subsection \<open>Idempotent transitions\<close>

text \<open>
  Claim C3. While a stream handle is present, the handler of a \<^verbatim>\<open>start_video\<close> command
  changes nothing in the state, publishes \<^verbatim>\<open>ok\<close>, and its only effects are taking the
  lock, the publication and releasing the lock: no handle is constructed or started.
\<close>

theorem start_while_running_noop:
  assumes "client s = Some c" "video_stream s = Some h"
  shows "case handle_start_video_command s of (r, s') \<Rightarrow>
           r = Returned \<and> s'\<lparr>trace := trace s\<rparr> = s \<and>
           published s' = published s @ [''ok''] \<and>
           map fst (events_since s s') =
             [LockAcquire, Publish (twin_uuid (config s)) ''ok'', LockRelease]"
  using assms
  by (simp add: handle_start_video_command_def flow_defs events_since_def published_def emit_def)

theorem start_while_running_noop_witness:
  "client running_service = Some demo_client \<and> video_stream running_service = Some demo_handle \<and>
   fst (handle_start_video_command running_service) = Returned \<and>
   video_stream (snd (handle_start_video_command running_service)) = Some demo_handle \<and>
   map fst (trace (snd (handle_start_video_command running_service))) =
     [LockAcquire, Publish (Some ''twin'') ''ok'', LockRelease]"
proof -
  have h: "client running_service = Some demo_client" "video_stream running_service = Some demo_handle"
    by (simp_all add: running_service_def demo_defs)
  from start_while_running_noop[OF h] h show ?thesis
    by (simp add: running_service_def demo_defs run_defs)
qed

text \<open>
  Claim C4. While no stream handle is present, the handler of a \<^verbatim>\<open>stop_video\<close> command
  changes nothing in the state, publishes \<^verbatim>\<open>ok\<close>, and its only effects are taking the
  lock, the publication and releasing the lock: no teardown call is made on any handle.
\<close>

theorem stop_while_absent_noop:
  assumes "client s = Some c" "video_stream s = None"
  shows "case handle_stop_video_command s of (r, s') \<Rightarrow>
           r = Returned \<and> s'\<lparr>trace := trace s\<rparr> = s \<and>
           published s' = published s @ [''ok''] \<and>
           map fst (events_since s s') =
             [LockAcquire, Publish (twin_uuid (config s)) ''ok'', LockRelease]"
  using assms
  by (simp add: handle_stop_video_command_def flow_defs events_since_def published_def emit_def)

theorem stop_while_absent_noop_witness:
  "client demo_service = Some demo_client \<and> video_stream demo_service = None \<and>
   fst (handle_stop_video_command demo_service) = Returned \<and>
   video_stream (snd (handle_stop_video_command demo_service)) = None \<and>
   map fst (trace (snd (handle_stop_video_command demo_service))) =
     [LockAcquire, Publish (Some ''twin'') ''ok'', LockRelease]"
proof -
  have h: "client demo_service = Some demo_client" "video_stream demo_service = None"
    by (simp_all add: demo_defs)
  from stop_while_absent_noop[OF h] h show ?thesis
    by (simp add: demo_defs run_defs)
qed

subsection \<open>The stop sequence\<close>

text \<open>
  Claim C5, as the code has it. The handle's \<^verbatim>\<open>stop()\<close> is called in a try/except of
  its own: when it raises, the error is logged and the sequence ends there, returning
  normally. \<^verbatim>\<open>stop()\<close> is called exactly when inspecting the handle's \<^verbatim>\<open>pc\<close> and
  \<^verbatim>\<open>streamer\<close> attributes does not raise. The streamer's \<^verbatim>\<open>release()\<close> is called
  exactly when inspecting \<^verbatim>\<open>pc\<close> raises and the streamer is truthy and has a
  \<^verbatim>\<open>release\<close> attribute; so it is never called in an execution that called
  \<^verbatim>\<open>stop()\<close>.
\<close>

theorem release_only_when_probe_raises:
  assumes "video_stream s = Some h"
  shows "(HandleStop (hid h) \<in> fst ` set (events_since s (snd (stop_video_stream s)))
            \<longleftrightarrow> pc h \<noteq> Faulty \<and> streamer h \<noteq> Faulty) \<and>
         (StreamerRelease (hid h) \<in> fst ` set (events_since s (snd (stop_video_stream s)))
            \<longleftrightarrow> pc h = Faulty \<and> streamer h = Truthy \<and> streamer_has_release h) \<and>
         (stop_raises h \<and> pc h \<noteq> Faulty \<and> streamer h \<noteq> Faulty \<longrightarrow>
            fst (stop_video_stream s) = Returned \<and>
            (\<exists>pre. map fst (events_since s (snd (stop_video_stream s))) =
                     pre @ [HandleStop (hid h), Log ERROR ''Error stopping stream'']))"
  using assms
  by (auto simp add: stop_defs flow_defs Let_def events_since_def split: probe.splits)

theorem release_only_when_probe_raises_witness:
  "video_stream (demo_service\<lparr>video_stream := Some (demo_handle\<lparr>pc := Faulty\<rparr>)\<rparr>)
     = Some (demo_handle\<lparr>pc := Faulty\<rparr>) \<and>
   map fst (trace (snd (stop_video_stream
      (demo_service\<lparr>video_stream := Some (demo_handle\<lparr>pc := Faulty\<rparr>)\<rparr>)))) =
     [Log ERROR ''Error stopping video stream'', StreamerRelease 1] \<and>
   HandleStop 1 \<notin> fst ` set (trace (snd (stop_video_stream
      (demo_service\<lparr>video_stream := Some (demo_handle\<lparr>pc := Faulty\<rparr>)\<rparr>))))"
  using release_only_when_probe_raises
    [of "demo_service\<lparr>video_stream := Some (demo_handle\<lparr>pc := Faulty\<rparr>)\<rparr>"
        "demo_handle\<lparr>pc := Faulty\<rparr>"]
  by (simp add: demo_defs stop_defs flow_defs Let_def)

text \<open>
  Claim C5 as stated fails: a handle whose \<^verbatim>\<open>stop()\<close> raises and whose streamer has a
  \<^verbatim>\<open>release\<close> attribute is stopped without any call of \<^verbatim>\<open>release()\<close>.
\<close>

theorem stop_failure_no_release_counterexample:
  "stop_raises stubborn_handle \<and> streamer stubborn_handle = Truthy \<and>
   streamer_has_release stubborn_handle \<and>
   map fst (events_since stubborn_service (snd (stop_video_stream stubborn_service))) =
     [PcClose 1, StreamerClose 1, HandleStop 1, Log ERROR ''Error stopping stream''] \<and>
   StreamerRelease 1 \<notin> fst ` set (events_since stubborn_service (snd (stop_video_stream stubborn_service)))"
  by (simp add: stubborn_defs demo_defs stop_defs flow_defs Let_def events_since_def)

text \<open>
  Claim C6. The stop sequence never raises and ends with \<^verbatim>\<open>video_stream\<close> at
  \<^verbatim>\<open>None\<close>, whichever teardown steps fail; and every call and log record it makes
  happens while the field is already \<^verbatim>\<open>None\<close>.
\<close>

theorem stop_clears_handle_first:
  "fst (stop_video_stream s) = Returned \<and>
   video_stream (snd (stop_video_stream s)) = None \<and>
   (\<forall>ob \<in> set (events_since s (snd (stop_video_stream s))). snd ob)"
  using stop_video_stream_returns stop_video_stream_clears stop_video_stream_stamps by blast

theorem stop_clears_handle_first_witness:
  "video_stream stubborn_service = Some stubborn_handle \<and>
   video_stream (snd (stop_video_stream stubborn_service)) = None \<and>
   events_since stubborn_service (snd (stop_video_stream stubborn_service)) =
     [(PcClose 1, True), (StreamerClose 1, True), (HandleStop 1, True),
      (Log ERROR ''Error stopping stream'', True)]"
  using stop_clears_handle_first [of stubborn_service]
  by (simp add: stubborn_defs demo_defs stop_defs flow_defs Let_def events_since_def)

subsection \<open>The command callback\<close>

text \<open>
  Claim C7. A message whose payload has a \<^verbatim>\<open>status\<close> key makes the callback return
  at once: nothing is scheduled and the state, its trace of publications and log records
  included, is the one before.
\<close>

theorem status_echo_ignored:
  assumes "''status'' \<in> set (map fst (payload_of data))"
  shows "on_command_message data s = (None, s) \<and> deliver data s = s"
  using assms by (simp add: on_command_message_def deliver_def)

theorem status_echo_ignored_witness:
  "''status'' \<in> set (map fst (payload_of (JDict [(''status'', JStr ''ok'')]))) \<and>
   on_command_message (JDict [(''status'', JStr ''ok'')]) running_service = (None, running_service) \<and>
   deliver (JDict [(''status'', JStr ''ok'')]) running_service = running_service"
proof -
  have h: "''status'' \<in> set (map fst (payload_of (JDict [(''status'', JStr ''ok'')])))"
    by (simp add: payload_of_def)
  from status_echo_ignored[OF h] h show ?thesis by simp
qed

text \<open>
  Claim C8, as the code has it. A message whose payload has no \<^verbatim>\<open>status\<close> key and
  whose \<^verbatim>\<open>command\<close> is missing or is neither \<^verbatim>\<open>start_video\<close> nor \<^verbatim>\<open>stop_video\<close>
  schedules no handler, publishes nothing and changes nothing in the state; the callback
  logs one record: the warning for a missing command when the value is missing or falsy,
  otherwise the warning for an unknown command, or an error when the service has no
  event loop.
\<close>

theorem unknown_command_not_acted_on:
  assumes "''status'' \<notin> set (map fst (payload_of data))"
    and "map_of (payload_of data) ''command'' \<notin> {Some (JStr ''start_video''), Some (JStr ''stop_video'')}"
  shows "case on_command_message data s of (co, s') \<Rightarrow>
           co = None \<and> deliver data s = s' \<and> s'\<lparr>trace := trace s\<rparr> = s \<and>
           published s' = published s \<and>
           map fst (events_since s s') =
             [if \<not> (case map_of (payload_of data) ''command'' of None \<Rightarrow> False | Some v \<Rightarrow> truthy v)
              then Log WARNING ''Command message missing command field''
              else if event_loop s = None
              then Log ERROR ''Event loop not available, cannot process command''
              else Log WARNING ''Unknown command type'']"
  using assms
  by (auto simp add: on_command_message_def deliver_def Let_def events_since_def published_def
      emit_def split: option.splits)

theorem unknown_command_not_acted_on_witness:
  "''status'' \<notin> set (map fst (payload_of (JDict [(''command'', JStr ''reboot'')]))) \<and>
   map_of (payload_of (JDict [(''command'', JStr ''reboot'')])) ''command'' = Some (JStr ''reboot'') \<and>
   fst (on_command_message (JDict [(''command'', JStr ''reboot'')]) running_service) = None \<and>
   video_stream (deliver (JDict [(''command'', JStr ''reboot'')]) running_service) = Some demo_handle \<and>
   trace (deliver (JDict [(''command'', JStr ''reboot'')]) running_service) =
     [(Log WARNING ''Unknown command type'', False)]"
  using unknown_command_not_acted_on [of "JDict [(''command'', JStr ''reboot'')]" running_service]
  by (simp add: payload_of_def running_service_def demo_defs on_command_message_def deliver_def
      emit_def Let_def)

text \<open>
  Claim C8 as stated fails: the payload \<^verbatim>\<open>{"status": "ok"}\<close> has no \<^verbatim>\<open>command\<close>
  field and the callback logs nothing; and \<^verbatim>\<open>{"command": "reboot"}\<close> received by a
  service without an event loop logs an error, not a warning.
\<close>

theorem unknown_command_warning_counterexample:
  "map_of (payload_of (JDict [(''status'', JStr ''ok'')])) ''command'' = None \<and>
   events_since demo_service
     (snd (on_command_message (JDict [(''status'', JStr ''ok'')]) demo_service)) = [] \<and>
   map fst (events_since (demo_service\<lparr>event_loop := None\<rparr>)
     (snd (on_command_message (JDict [(''command'', JStr ''reboot'')])
            (demo_service\<lparr>event_loop := None\<rparr>)))) =
     [Log ERROR ''Event loop not available, cannot process command'']"
  by (simp add: payload_of_def demo_defs on_command_message_def events_since_def emit_def Let_def)

subsection \<open>Absent client\<close>

text \<open>
  Claim C10. When the service has no client, the handler of a \<^verbatim>\<open>start_video\<close> or
  \<^verbatim>\<open>stop_video\<close> command logs the error and returns: the lock is not taken, nothing
  is published and the state is unchanged.
\<close>

theorem absent_client_no_ack:
  assumes "client s = None"
  shows "(case handle_start_video_command s of (r, s') \<Rightarrow>
            r = Returned \<and> s'\<lparr>trace := trace s\<rparr> = s \<and> published s' = published s \<and>
            map fst (events_since s s') = [Log ERROR ''Client not available'']) \<and>
         (case handle_stop_video_command s of (r, s') \<Rightarrow>
            r = Returned \<and> s'\<lparr>trace := trace s\<rparr> = s \<and> published s' = published s \<and>
            map fst (events_since s s') = [Log ERROR ''Client not available''])"
  using assms
  by (simp add: handle_start_video_command_def handle_stop_video_command_def events_since_def
      published_def emit_def)

theorem absent_client_no_ack_witness:
  "client (running_service\<lparr>client := None\<rparr>) = None \<and>
   map fst (trace (snd (handle_start_video_command (running_service\<lparr>client := None\<rparr>)))) =
     [Log ERROR ''Client not available''] \<and>
   video_stream (snd (handle_start_video_command (running_service\<lparr>client := None\<rparr>))) = Some demo_handle \<and>
   map fst (trace (snd (handle_stop_video_command (running_service\<lparr>client := None\<rparr>)))) =
     [Log ERROR ''Client not available''] \<and>
   video_stream (snd (handle_stop_video_command (running_service\<lparr>client := None\<rparr>))) = Some demo_handle"
  using absent_client_no_ack [of "running_service\<lparr>client := None\<rparr>"]
  by (simp add: running_service_def demo_defs handler_defs emit_def)

subsection \<open>Configuration errors\<close>

text \<open>
  Claim C9. When, after the \<^verbatim>\<open>.env\<close> file is read, the environment has no (or an
  empty) \<^verbatim>\<open>CYBERWAVE_TOKEN\<close> or \<^verbatim>\<open>CYBERWAVE_TWIN_UUID\<close>: \<^verbatim>\<open>validate\<close> returns
  \<^verbatim>\<open>False\<close> on every configuration with these values, \<^verbatim>\<open>load_config\<close> raises, and
  the process ends with exit status 1 without the service being created, so without any
  connection being attempted; this holds for both entry points.
\<close>

theorem missing_credentials_fatal:
  assumes "\<not> str_truthy (fst (load_env_file (dotenv w) (os_environ w)) ''CYBERWAVE_TOKEN'') \<or>
           \<not> str_truthy (fst (load_env_file (dotenv w) (os_environ w)) ''CYBERWAVE_TWIN_UUID'')"
  shows "(\<forall>cfg. cyberwave_token cfg = fst (load_env_file (dotenv w) (os_environ w)) ''CYBERWAVE_TOKEN'' \<and>
                twin_uuid cfg = fst (load_env_file (dotenv w) (os_environ w)) ''CYBERWAVE_TWIN_UUID''
                \<longrightarrow> fst (validate cfg) = False) \<and>
         (\<exists>e env' lg. load_config (py_int w) (dotenv w) (os_environ w) = (Inl e, env', lg)) \<and>
         (\<exists>r. async_main w = Some r \<and> exit_status (ending r) = 1 \<and> service r = None \<and>
               \<not> connection_attempted r \<and> main w = Some r \<and> module_main w = Some r)"
proof (intro conjI)
  show "\<forall>cfg. cyberwave_token cfg = fst (load_env_file (dotenv w) (os_environ w)) ''CYBERWAVE_TOKEN'' \<and>
                twin_uuid cfg = fst (load_env_file (dotenv w) (os_environ w)) ''CYBERWAVE_TWIN_UUID''
                \<longrightarrow> fst (validate cfg) = False"
    using assms validate_rejects by auto
  from load_config_rejects[OF assms]
  obtain e env' lg where l: "load_config (py_int w) (dotenv w) (os_environ w) = (Inl e, env', lg)"
    by blast
  then show "\<exists>e env' lg. load_config (py_int w) (dotenv w) (os_environ w) = (Inl e, env', lg)"
    by blast
  from l show "\<exists>r. async_main w = Some r \<and> exit_status (ending r) = 1 \<and> service r = None \<and>
               \<not> connection_attempted r \<and> main w = Some r \<and> module_main w = Some r"
    by (simp add: async_main_def main_def module_main_def fatal_def exit_status_def
        connection_attempted_def)
qed

theorem missing_credentials_fatal_witness:
  "\<not> str_truthy (fst (load_env_file (dotenv demo_world) (os_environ demo_world)) ''CYBERWAVE_TOKEN'') \<and>
   fst (load_config (py_int demo_world) (dotenv demo_world) (os_environ demo_world)) =
     Inl (ValueError ''Invalid configuration. Please check your .env file or environment variables.'') \<and>
   map_option (\<lambda>r. (exit_status (ending r), service r)) (async_main demo_world) = Some (1, None)"
proof -
  have h: "\<not> str_truthy (fst (load_env_file (dotenv demo_world) (os_environ demo_world)) ''CYBERWAVE_TOKEN'')"
    by (simp add: demo_world_def load_env_file_def str_truthy_def)
  then have "\<not> str_truthy (fst (load_env_file (dotenv demo_world) (os_environ demo_world)) ''CYBERWAVE_TOKEN'') \<or>
             \<not> str_truthy (fst (load_env_file (dotenv demo_world) (os_environ demo_world)) ''CYBERWAVE_TWIN_UUID'')"
    by simp
  from missing_credentials_fatal[OF this] h show ?thesis
    by (auto simp add: demo_world_def load_config_def load_env_file_def EdgeConfig_def
        validate_def getenv_def getenv_str_def getenv_int_def str_truthy_def strip_def Let_def)
qed

end
